theory Spec2Isabelle
  imports Main "HOL-Library.Sublist"
begin

section \<open>JavaScript values shared by the services\<close>

text \<open>
  A thrown \<open>Error\<close> is a value carrying its message. A function that may throw returns
  \<open>js_error + 'a\<close>, with \<open>Inl\<close> for the throw. Numbers that the code only counts
  with (\<open>videosGenerated\<close>, \<open>maxVideosPerMonth\<close>, timestamps) are \<open>int\<close>.
\<close>

datatype js_error = Error string

fun message :: "js_error \<Rightarrow> string" where
  "message (Error m) = m"

text \<open>\<open>Array.prototype.indexOf\<close>: the position of the first equal element, or \<open>-1\<close>.\<close>

fun indexOf :: "'a list \<Rightarrow> 'a \<Rightarrow> int" where
  "indexOf [] x = - 1"
| "indexOf (y # ys) x =
     (if y = x then 0 else (let i = indexOf ys x in if i < 0 then - 1 else i + 1))"

section \<open>The user model (models/user.model.ts)\<close>

datatype SubscriptionPlan = BASIC | INTERMEDIATE | ADVANCED

text \<open>The string value of each member of the enum \<open>SubscriptionPlan\<close>.\<close>

fun plan_value :: "SubscriptionPlan \<Rightarrow> string" where
  "plan_value BASIC = ''basic''"
| "plan_value INTERMEDIATE = ''intermediate''"
| "plan_value ADVANCED = ''advanced''"

record ISubscriptionPlan =
  plan :: SubscriptionPlan
  startDate :: int
  endDate :: "int option"
  isActive :: bool
  videosGenerated :: int
  maxVideosPerMonth :: int

text \<open>
  A stored user document. \<open>uid\<close> is the field \<open>_id\<close>: the 24 lower-case hexadecimal
  digits of the document's \<open>ObjectId\<close>.
\<close>

record IUser =
  uid :: string
  username :: string
  password :: string
  name :: string
  subscription :: ISubscriptionPlan
  createdAt :: int
  updatedAt :: int
  lastLoggedIn :: "int option"

record plan_limit =
  limitVideosPerMonth :: int
  maxComplexity :: string
  maxDuration :: int

fun PLAN_LIMITS :: "SubscriptionPlan \<Rightarrow> plan_limit" where
  "PLAN_LIMITS BASIC =
     \<lparr>limitVideosPerMonth = 5, maxComplexity = ''basic'', maxDuration = 30\<rparr>"
| "PLAN_LIMITS INTERMEDIATE =
     \<lparr>limitVideosPerMonth = 20, maxComplexity = ''intermediate'', maxDuration = 60\<rparr>"
| "PLAN_LIMITS ADVANCED =
     \<lparr>limitVideosPerMonth = 100, maxComplexity = ''advanced'', maxDuration = 120\<rparr>"

subsection \<open>The collection and its queries\<close>

text \<open>
  The value a filter compares \<open>_id\<close> with. \<open>new ObjectId(s)\<close> gives an \<open>ObjectId\<close>;
  \<open>new Object(s)\<close> on a string gives a boxed \<open>String\<close>, which the driver serialises as
  an embedded document. The store compares type and value, and every stored \<open>_id\<close> is an
  \<open>ObjectId\<close>, so a boxed string matches no document.
\<close>

datatype id_query = ObjectId string | StringObject string

definition is_hex :: "char \<Rightarrow> bool" where
  "is_hex c = (c \<in> set ''0123456789abcdefABCDEF'')"

definition hex_lower :: "char \<Rightarrow> char" where
  "hex_lower c =
     (if c = CHR ''A'' then CHR ''a'' else if c = CHR ''B'' then CHR ''b''
      else if c = CHR ''C'' then CHR ''c'' else if c = CHR ''D'' then CHR ''d''
      else if c = CHR ''E'' then CHR ''e'' else if c = CHR ''F'' then CHR ''f'' else c)"

text \<open>
  The driver's constructor \<open>new ObjectId(userId)\<close> on a string: it throws unless the
  string is 24 hexadecimal digits.
\<close>

definition new_ObjectId :: "string \<Rightarrow> js_error + id_query" where
  "new_ObjectId s =
     (if length s = 24 \<and> list_all is_hex s then Inr (ObjectId (map hex_lower s))
      else Inl (Error ''input must be a 24 character hex string, 12 byte Uint8Array, or an integer''))"

fun matches_id :: "id_query \<Rightarrow> IUser \<Rightarrow> bool" where
  "matches_id (ObjectId h) u = (uid u = h)"
| "matches_id (StringObject s) u = False"

text \<open>\<open>collection.findOne({ _id: q })\<close>: the first matching document, or \<open>null\<close>.\<close>

fun findOne :: "IUser list \<Rightarrow> id_query \<Rightarrow> IUser option" where
  "findOne [] q = None"
| "findOne (u # us) q = (if matches_id q u then Some u else findOne us q)"

text \<open>\<open>collection.updateOne({ _id: q }, update)\<close>: the first matching document is updated.\<close>

fun updateOne :: "IUser list \<Rightarrow> id_query \<Rightarrow> (IUser \<Rightarrow> IUser) \<Rightarrow> IUser list" where
  "updateOne [] q f = []"
| "updateOne (u # us) q f = (if matches_id q u then f u # us else u # updateOne us q f)"

subsection \<open>canGenerateVideos\<close>

record decision =
  canGenerate :: bool
  reason :: "string option"
  videosLeft :: "int option"

definition complexityOrder :: "string list" where
  "complexityOrder = [''basic'', ''intermediate'', ''advanced'']"

text \<open>
  The body after the user has been read. The source also computes \<open>currentMonth\<close> and
  never reads it.
\<close>

definition decide :: "IUser \<Rightarrow> string \<Rightarrow> js_error + decision" where
  "decide user complexity =
     (if \<not> isActive (subscription user) then Inl (Error ''Your subscription is inactive!'')
      else
        let videosThisMonth = videosGenerated (subscription user);
            maxVideos = maxVideosPerMonth (subscription user)
        in if videosThisMonth > maxVideos
           then Inr \<lparr>canGenerate = False, reason = Some ''Your montly limit has reached!'',
                     videosLeft = Some 0\<rparr>
           else
             let planLimits = PLAN_LIMITS (plan (subscription user));
                 userMaxComplexity = indexOf complexityOrder (maxComplexity planLimits);
                 requestedComplexity = indexOf complexityOrder complexity
             in if requestedComplexity > userMaxComplexity
                then Inr \<lparr>canGenerate = False,
                          reason = Some (''Complexity '' @ complexity @ '' not allowed for ''
                                         @ plan_value (plan (subscription user))),
                          videosLeft = None\<rparr>
                else Inr \<lparr>canGenerate = True, reason = None,
                          videosLeft = Some (maxVideos - videosThisMonth)\<rparr>)"

definition canGenerateVideos :: "IUser list \<Rightarrow> string \<Rightarrow> string \<Rightarrow> js_error + decision" where
  "canGenerateVideos collection userId complexity =
     (case new_ObjectId userId of
        Inl e \<Rightarrow> Inl e
      | Inr q \<Rightarrow>
          (case findOne collection q of
             None \<Rightarrow> Inl (Error ''User not found!'')
           | Some user \<Rightarrow> decide user complexity))"

subsection \<open>increaseVideoCount\<close>

text \<open>
  The filter is \<open>{ _id: new Object(userId) }\<close>, not \<open>new ObjectId(userId)\<close> as in every
  other query of the class. \<open>now\<close> is the value of \<open>new Date()\<close>.
\<close>

definition bump :: "int \<Rightarrow> IUser \<Rightarrow> IUser" where
  "bump now u =
     u\<lparr>subscription := (subscription u)\<lparr>videosGenerated := videosGenerated (subscription u) + 1\<rparr>,
       updatedAt := now\<rparr>"

definition increaseVideoCount :: "IUser list \<Rightarrow> string \<Rightarrow> int \<Rightarrow> IUser list" where
  "increaseVideoCount collection userId now =
     updateOne collection (StringObject userId) (bump now)"

subsection \<open>Sample accounts\<close>

definition sample_id :: string where
  "sample_id = ''64b7f0c2a1d3e4f5a6b7c8d9''"

definition sample_user :: "bool \<Rightarrow> SubscriptionPlan \<Rightarrow> int \<Rightarrow> int \<Rightarrow> IUser" where
  "sample_user active p generated limit =
     \<lparr>uid = sample_id, username = ''ada'', password = ''hash'', name = ''Ada'',
      subscription = \<lparr>plan = p, startDate = 0, endDate = None, isActive = active,
                      videosGenerated = generated, maxVideosPerMonth = limit\<rparr>,
      createdAt = 0, updatedAt = 0, lastLoggedIn = None\<rparr>"

section \<open>Promises\<close>

text \<open>
  The state a promise ends in. Calling \<open>resolve\<close> or \<open>reject\<close> on a promise that is
  already settled does nothing.
\<close>

datatype 'a promise = Pending | Fulfilled 'a | Rejected js_error

definition settle :: "'a promise \<Rightarrow> 'a promise \<Rightarrow> 'a promise" where
  "settle p outcome = (case p of Pending \<Rightarrow> outcome | Fulfilled v \<Rightarrow> p | Rejected e \<Rightarrow> p)"

section \<open>The render executor (services/manim.service.ts)\<close>

datatype job_status = processing | failed | completed

record VideoGenerationRequest =
  request_code :: string
  request_complexity :: string
  request_prompt :: string
  quality :: "string option"

record VideoGenerationResponse =
  videoId :: string
  status :: job_status
  videoUrl :: "string option"
  error :: "string option"

text \<open>
  What the child process and the timer deliver to the handlers that \<open>runManim\<close> installs,
  in the order of delivery: \<open>close\<close> with the exit code (\<open>null\<close> when a signal ended
  the process), \<open>error\<close> when the process could not be spawned, and the expiry of the
  3000 ms timer.
\<close>

datatype proc_event = Close "int option" | SpawnError | TimerFired

text \<open>
  The files, the \<open>unlink\<close> calls made so far, and the promises that were created and
  never awaited.
\<close>

record world =
  files :: "string \<rightharpoonup> string"
  unlinks :: "string list"
  floating :: "string promise list"

text \<open>
  What the surroundings decide for one call of \<open>generateVideo\<close>: the two directories, the
  value of \<open>uuidv4()\<close>, the clock, whether \<open>fs.writeFile\<close> and \<open>fs.unlink\<close> reject
  (and with what), and the events of the renderer. \<open>overlap\<close> is what other calls of
  the service, running at the same time, have done to the files between this call's
  write and its \<open>unlink\<close>; it is the identity when the call runs alone. The temporary path
  is built from the millisecond clock, so two calls in the same millisecond share it.
\<close>

record render_env =
  tempDir :: string
  outDir :: string
  uuid :: string
  clock :: nat
  writeFile_error :: "js_error option"
  unlink_error :: "js_error option"
  overlap :: "(string \<rightharpoonup> string) \<Rightarrow> (string \<rightharpoonup> string)"
  events :: "proc_event list"

definition path_join :: "string \<Rightarrow> string \<Rightarrow> string" where
  "path_join dir file = dir @ ''/'' @ file"

definition digit_char :: "nat \<Rightarrow> char" where
  "digit_char d = char_of (48 + d)"

function showNat :: "nat \<Rightarrow> string" where
  "showNat n = (if n < 10 then [digit_char n] else showNat (n div 10) @ [digit_char (n mod 10)])"
  by pat_completeness auto
termination
  by (relation "measure id") auto

declare showNat.simps [simp del]

definition pythonFilePath_of :: "render_env \<Rightarrow> string" where
  "pythonFilePath_of env =
     path_join (tempDir env) (''animation_'' @ showNat (clock env) @ ''.py'')"

definition fs_writeFile :: "render_env \<Rightarrow> world \<Rightarrow> string \<Rightarrow> string \<Rightarrow> js_error option \<times> world" where
  "fs_writeFile env w path data =
     (case writeFile_error env of
        Some e \<Rightarrow> (Some e, w)
      | None \<Rightarrow> (None, w\<lparr>files := (files w)(path \<mapsto> data)\<rparr>))"

text \<open>
  \<open>fs.unlink\<close>. A path that names no file gives \<open>ENOENT\<close>; on an existing file the
  surroundings may refuse the deletion (\<open>unlink_error\<close>), which leaves the file in place.
\<close>

definition unlink_outcome :: "render_env \<Rightarrow> (string \<rightharpoonup> string) \<Rightarrow> string \<Rightarrow> js_error option" where
  "unlink_outcome env fs path =
     (if fs path = None
      then Some (Error (''ENOENT: no such file or directory, unlink '' @ [CHR 0x27] @ path @ [CHR 0x27]))
      else unlink_error env)"

definition fs_unlink :: "render_env \<Rightarrow> world \<Rightarrow> string \<Rightarrow> js_error option \<times> world" where
  "fs_unlink env w path =
     (let w1 = w\<lparr>unlinks := unlinks w @ [path]\<rparr>
      in case unlink_outcome env (files w1) path of
           Some e \<Rightarrow> (Some e, w1)
         | None \<Rightarrow> (None, w1\<lparr>files := (files w1)(path := None)\<rparr>))"

definition getQualityFlag :: "string \<Rightarrow> string" where
  "getQualityFlag q =
     (if q = ''low'' then ''-ql'' else if q = ''medium'' then ''-qm''
      else if q = ''high'' then ''-qh'' else ''-qm'')"

text \<open>One handler call: \<open>close\<close>, \<open>error\<close>, or the timer's callback.\<close>

fun on_event :: "string \<Rightarrow> string promise \<Rightarrow> proc_event \<Rightarrow> string promise" where
  "on_event outputPath p (Close c) =
     (if c = Some 0 then settle p (Fulfilled outputPath)
      else settle p (Rejected (Error ''Manim process failed with code'')))"
| "on_event outputPath p SpawnError =
     settle p (Rejected (Error ''Failed to start manim process''))"
| "on_event outputPath p TimerFired =
     settle p (Rejected (Error ''Video generation timeout''))"

text \<open>
  The promise \<open>runManim\<close> returns, in the state the events leave it in. The arguments
  handed to the renderer do not enter: its behaviour is the list of events.
\<close>

definition runManim :: "render_env \<Rightarrow> string \<Rightarrow> string \<Rightarrow> string \<Rightarrow> string promise" where
  "runManim env pythonFilePath qualityFlag vid =
     (let outputPath = path_join (outDir env) (vid @ ''.mp4'')
      in foldl (on_event outputPath) Pending (events env))"

definition failed_response :: "string \<Rightarrow> js_error \<Rightarrow> VideoGenerationResponse" where
  "failed_response vid e =
     \<lparr>videoId = vid, status = failed, videoUrl = None, error = Some (message e)\<rparr>"

text \<open>
  \<open>generateVideo\<close>. The call \<open>this.runManim(...)\<close> is not awaited: \<open>outputPath\<close> is the
  promise itself, nothing reads it, and the function goes on to \<open>fs.unlink\<close>.
\<close>

definition generateVideo :: "render_env \<Rightarrow> world \<Rightarrow> VideoGenerationRequest
    \<Rightarrow> VideoGenerationResponse \<times> world" where
  "generateVideo env w request =
     (let vid = uuid env;
          timestamp = clock env;
          pythonFileName = ''animation_'' @ showNat timestamp @ ''.py'';
          pythonFilePath = path_join (tempDir env) pythonFileName
      in case fs_writeFile env w pythonFilePath (request_code request) of
           (Some e, w1) \<Rightarrow> (failed_response vid e, w1)
         | (None, w1) \<Rightarrow>
             (let qualityFlag = getQualityFlag
                    (case quality request of None \<Rightarrow> ''medium''
                     | Some q \<Rightarrow> if q = [] then ''medium'' else q);
                  outputPath = runManim env pythonFilePath qualityFlag vid;
                  w2 = w1\<lparr>files := overlap env (files w1),
                          floating := floating w1 @ [outputPath]\<rparr>
              in case fs_unlink env w2 pythonFilePath of
                   (Some e, w3) \<Rightarrow> (failed_response vid e, w3)
                 | (None, w3) \<Rightarrow>
                     (\<lparr>videoId = vid, status = completed,
                       videoUrl = Some (''/api/videos/'' @ vid @ ''.mp4''), error = None\<rparr>,
                      w3)))"

subsection \<open>Sample runs\<close>

definition sample_request :: VideoGenerationRequest where
  "sample_request =
     \<lparr>request_code = ''from manim import *'', request_complexity = ''basic'',
      request_prompt = ''draw a circle'', quality = Some ''low''\<rparr>"

definition sample_env :: "js_error option \<Rightarrow> proc_event list \<Rightarrow> render_env" where
  "sample_env unlink_failure evs =
     \<lparr>tempDir = ''/srv/tmp'', outDir = ''/srv/out'', uuid = ''job-1'', clock = 42,
      writeFile_error = None, unlink_error = unlink_failure, overlap = (\<lambda>fs. fs),
      events = evs\<rparr>"

text \<open>A run during which an overlapping call deletes the shared temporary file.\<close>

definition overlapped_env :: "proc_event list \<Rightarrow> render_env" where
  "overlapped_env evs =
     \<lparr>tempDir = ''/srv/tmp'', outDir = ''/srv/out'', uuid = ''job-1'', clock = 42,
      writeFile_error = None, unlink_error = None,
      overlap = (\<lambda>fs. fs(''/srv/tmp/animation_42.py'' := None)), events = evs\<rparr>"

definition empty_world :: world where
  "empty_world = \<lparr>files = Map.empty, unlinks = [], floating = []\<rparr>"

section \<open>The artifact store (StorageService)\<close>

text \<open>
  The storage client is a collaborator. Its \<open>presignedGetObject\<close> either throws while
  it is being called or returns a promise, which may be rejected later.
\<close>

record minio_client =
  presignedGetObject :: "string \<Rightarrow> string \<Rightarrow> int \<Rightarrow> js_error + string promise"

text \<open>
  \<open>getVideoUrl\<close> is an \<open>async\<close> function whose \<open>try\<close> block holds no \<open>await\<close>: the
  \<open>catch\<close> sees only what \<open>presignedGetObject\<close> throws during the call. \<open>return url\<close>
  returns the client's promise, so the result of \<open>getVideoUrl\<close> takes that promise's
  state. \<open>expirySeconds\<close> defaults to 3600.
\<close>

definition getVideoUrl :: "minio_client \<Rightarrow> string \<Rightarrow> string \<Rightarrow> string \<Rightarrow> int option
    \<Rightarrow> string promise" where
  "getVideoUrl client bucketName vid userId expirySeconds =
     (let expiry = (case expirySeconds of None \<Rightarrow> 3600 | Some n \<Rightarrow> n);
          object = ''videos/'' @ userId @ ''/'' @ vid @ ''.mp4''
      in case presignedGetObject client bucketName object expiry of
           Inl e \<Rightarrow> Fulfilled ''''
         | Inr url \<Rightarrow> url)"

definition failing_client :: minio_client where
  "failing_client =
     \<lparr>presignedGetObject = (\<lambda>bucket object expiry.
        Inr (Rejected (Error ''connect ECONNREFUSED 127.0.0.1:9000'')))\<rparr>"

definition throwing_client :: minio_client where
  "throwing_client =
     \<lparr>presignedGetObject = (\<lambda>bucket object expiry.
        Inl (Error ''Invalid bucket name''))\<rparr>"

section \<open>Strings\<close>

text \<open>
  A string is a list of characters. The JavaScript operations the services use are
  modelled on it: \<open>trim\<close>, \<open>split("\n")\<close>, \<open>join("\n")\<close>, \<open>includes\<close> (here \<open>includes_str\<close>),
  \<open>startsWith\<close>, \<open>toLowerCase\<close> and \<open>parseInt\<close> on a run of digits. White space is
  what \<open>trim\<close> and the regular expression class \<open>\s\<close> take for it among the first 256
  code points.
\<close>

definition is_space :: "char \<Rightarrow> bool" where
  "is_space c = (c \<in> set [CHR 0x09, CHR 0x0A, CHR 0x0B, CHR 0x0C, CHR 0x0D, CHR '' '', CHR 0xA0])"





definition trim :: "string \<Rightarrow> string" where
  "trim s = rev (dropWhile is_space (rev (dropWhile is_space s)))"

definition includes_str :: "string \<Rightarrow> string \<Rightarrow> bool" where
  "includes_str s t = sublist t s"


fun split_lines :: "string \<Rightarrow> string list" where
  "split_lines [] = [[]]"
| "split_lines (c # cs) =
     (if c = CHR 0x0A then [] # split_lines cs
      else (case split_lines cs of [] \<Rightarrow> [[c]] | l # ls \<Rightarrow> (c # l) # ls))"

fun join_lines :: "string list \<Rightarrow> string" where
  "join_lines [] = []"
| "join_lines [l] = l"
| "join_lines (l # m # ls) = l @ CHR 0x0A # join_lines (m # ls)"


section \<open>The source normalizer (services/gemini.service.ts)\<close>

subsection \<open>Regular expressions of the source\<close>








text \<open>
  \<open>s.match(r)\<close> for a literal pattern with the \<open>g\<close> flag: every match, from left to
  right, without overlap. There are no capture groups in the result.
\<close>

function match_all :: "string \<Rightarrow> string \<Rightarrow> string list" where
  "match_all pat s =
     (if pat \<noteq> [] \<and> prefix pat s then pat # match_all pat (drop (length pat) s)
      else (case s of [] \<Rightarrow> [] | c # cs \<Rightarrow> match_all pat cs))"
  by pat_completeness auto
termination
  by (relation "measure (\<lambda>(pat, s). length s)") (auto simp: prefix_def)

declare match_all.simps [simp del]

text \<open>The three entries of \<open>codeMatches\<close> are the same literal: six backquotes.\<close>

definition codeMatches :: "string list" where
  "codeMatches = [''``````'', ''``````'', ''``````'']"

text \<open>
  The loop over \<open>codeMatches\<close>: \<open>match[1]\<close> is the second element of the array of
  matches.
\<close>

fun first_code :: "string list \<Rightarrow> string \<Rightarrow> string" where
  "first_code [] response = []"
| "first_code (regex # rest) response =
     (case match_all regex response of
        [] \<Rightarrow> first_code rest response
      | [m0] \<Rightarrow> first_code rest response
      | m0 # m1 # ms \<Rightarrow> if m1 \<noteq> [] then trim m1 else first_code rest response)"

subsection \<open>The scripts\<close>

definition generateFallbackCode :: string where
  "generateFallbackCode = join_lines
     [''from manim import *'',
      '''',
      ''class GeneratedAnimation(Scene):'',
      ''    def construct(self):'',
      ''        # Basic animation fallback'',
      ''        text = Text('' @ [CHR 0x22] @ ''Generated Animation'' @ [CHR 0x22] @ '')'',
      ''        self.play(Write(text))'',
      ''        self.wait(2)'',
      ''        '',
      ''        circle = Circle(radius=1, color=BLUE)'',
      ''        self.play(Create(circle))'',
      ''        self.wait(1)'',
      ''        '',
      ''        self.play(FadeOut(text), FadeOut(circle))'']"





subsection \<open>parseGeminiResponse\<close>



definition is_python_line :: "string \<Rightarrow> bool" where
  "is_python_line line =
     (includes_str line ''class '' \<or> includes_str line ''def construct'' \<or>
      includes_str line ''from manim'' \<or> includes_str line ''import manim'' \<or>
      includes_str line ''self.play'' \<or> includes_str line ''self.add'')"

text \<open>The code before \<open>cleanManimCode\<close>: the fenced match, the Python-like lines, the fallback.\<close>

definition extractCode :: "string \<Rightarrow> string" where
  "extractCode response =
     (let code0 = first_code codeMatches response
      in if code0 = []
         then (let pythonLines = filter is_python_line (split_lines response)
               in if length pythonLines > 0 then join_lines pythonLines
                  else generateFallbackCode)
         else code0)"



subsection \<open>Sample responses\<close>

definition fenced_response :: string where
  "fenced_response = join_lines
     [''```python'',
      ''from manim import *'',
      ''class Demo(Scene):'',
      ''    def construct(self):'',
      ''        c = Circle()'',
      ''        self.play(Create(c))'',
      ''```'']"

section \<open>Properties of the user model\<close>

lemma sample_lookup:
  "new_ObjectId sample_id = Inr (ObjectId sample_id)"
  "findOne [sample_user a p g l] (ObjectId sample_id) = Some (sample_user a p g l)"
  by (simp_all add: new_ObjectId_def sample_id_def sample_user_def is_hex_def hex_lower_def)

lemma canGenerateVideos_found:
  "new_ObjectId userId = Inr q \<Longrightarrow> findOne collection q = Some user \<Longrightarrow>
   canGenerateVideos collection userId complexity = decide user complexity"
  by (simp add: canGenerateVideos_def)

lemma canGenerateVideos_sample:
  "canGenerateVideos [sample_user a p g l] sample_id c = decide (sample_user a p g l) c"
  by (rule canGenerateVideos_found [OF sample_lookup])

lemma indexOf_plan_max:
  "indexOf complexityOrder (maxComplexity (PLAN_LIMITS p)) =
     (case p of BASIC \<Rightarrow> 0 | INTERMEDIATE \<Rightarrow> 1 | ADVANCED \<Rightarrow> 2)"
  by (cases p) (simp_all add: complexityOrder_def)

lemma indexOf_unknown:
  "c \<notin> set complexityOrder \<Longrightarrow> indexOf complexityOrder c = - 1"
  by (auto simp: complexityOrder_def)

lemma updateOne_boxed_string: "updateOne collection (StringObject s) f = collection"
  by (induction collection) simp_all

subsection \<open>The quota boundary\<close>

lemma decide_active:
  "isActive (subscription user) \<Longrightarrow>
   decide user complexity =
     (if videosGenerated (subscription user) > maxVideosPerMonth (subscription user)
      then Inr \<lparr>canGenerate = False, reason = Some ''Your montly limit has reached!'',
                videosLeft = Some 0\<rparr>
      else if indexOf complexityOrder complexity
                > indexOf complexityOrder (maxComplexity (PLAN_LIMITS (plan (subscription user))))
      then Inr \<lparr>canGenerate = False,
                reason = Some (''Complexity '' @ complexity @ '' not allowed for ''
                               @ plan_value (plan (subscription user))),
                videosLeft = None\<rparr>
      else Inr \<lparr>canGenerate = True, reason = None,
                videosLeft = Some (maxVideosPerMonth (subscription user)
                                   - videosGenerated (subscription user))\<rparr>)"
  by (simp add: decide_def Let_def)

text \<open>
  C3, as stated, at its boundary: an active account on the basic plan with
  \<open>videosGenerated = maxVideosPerMonth = 5\<close> that requests \<open>advanced\<close> is not allowed,
  because the tier rule is evaluated after the monthly-limit rule has let it through.
\<close>

theorem quota_boundary_counterexample:
  "isActive (subscription (sample_user True BASIC 5 5)) \<and>
   videosGenerated (subscription (sample_user True BASIC 5 5))
     = maxVideosPerMonth (subscription (sample_user True BASIC 5 5)) \<and>
   canGenerateVideos [sample_user True BASIC 5 5] sample_id ''advanced''
     = Inr \<lparr>canGenerate = False,
            reason = Some ''Complexity advanced not allowed for basic'',
            videosLeft = None\<rparr>"
  unfolding canGenerateVideos_sample
  by (simp add: decide_def Let_def complexityOrder_def sample_user_def)

text \<open>
  C3, amended: for an existing, active account, when \<open>videosGenerated\<close> equals
  \<open>maxVideosPerMonth\<close> and the requested complexity does not exceed the plan's maximum, the
  decision is allowed with 0 videos left; when \<open>videosGenerated\<close> equals
  \<open>maxVideosPerMonth + 1\<close> the decision is the monthly-limit denial with 0 videos left,
  whatever the complexity; and the monthly-limit denial is returned exactly when
  \<open>videosGenerated\<close> strictly exceeds \<open>maxVideosPerMonth\<close>.
\<close>

theorem quota_boundary:
  assumes "new_ObjectId userId = Inr q"
    and "findOne collection q = Some user"
    and "isActive (subscription user)"
  shows "(videosGenerated (subscription user) = maxVideosPerMonth (subscription user) \<and>
          indexOf complexityOrder complexity
            \<le> indexOf complexityOrder (maxComplexity (PLAN_LIMITS (plan (subscription user))))
          \<longrightarrow> canGenerateVideos collection userId complexity
                = Inr \<lparr>canGenerate = True, reason = None, videosLeft = Some 0\<rparr>) \<and>
         (videosGenerated (subscription user) = maxVideosPerMonth (subscription user) + 1
          \<longrightarrow> canGenerateVideos collection userId complexity
                = Inr \<lparr>canGenerate = False, reason = Some ''Your montly limit has reached!'',
                       videosLeft = Some 0\<rparr>) \<and>
         (canGenerateVideos collection userId complexity
            = Inr \<lparr>canGenerate = False, reason = Some ''Your montly limit has reached!'',
                   videosLeft = Some 0\<rparr>
          \<longleftrightarrow> videosGenerated (subscription user) > maxVideosPerMonth (subscription user))"
  using assms(3)
  by (simp add: canGenerateVideos_found [OF assms(1,2)] decide_active)

theorem quota_boundary_witness:
  "canGenerateVideos [sample_user True BASIC 5 5] sample_id ''basic''
     = Inr \<lparr>canGenerate = True, reason = None, videosLeft = Some 0\<rparr> \<and>
   canGenerateVideos [sample_user True BASIC 6 5] sample_id ''basic''
     = Inr \<lparr>canGenerate = False, reason = Some ''Your montly limit has reached!'',
            videosLeft = Some 0\<rparr>"
  using quota_boundary [OF sample_lookup, of True BASIC 5 5 "''basic''"]
        quota_boundary [OF sample_lookup, of True BASIC 6 5 "''basic''"]
  by (simp add: sample_user_def complexityOrder_def)

subsection \<open>The inactive subscription\<close>

text \<open>
  C4, as stated, fails: for an inactive account the call throws, it returns no denial.
\<close>

theorem inactive_counterexample:
  "\<not> isActive (subscription (sample_user False BASIC 0 5)) \<and>
   canGenerateVideos [sample_user False BASIC 0 5] sample_id ''basic''
     = Inl (Error ''Your subscription is inactive!'')"
  unfolding canGenerateVideos_sample
  by (simp add: decide_def sample_user_def)

text \<open>
  C4, amended: whenever the account's subscription has \<open>isActive = false\<close>,
  \<open>canGenerateVideos\<close> throws an \<open>Error\<close> with the message "Your subscription is inactive!"
  and returns no decision; for every existing account whose subscription is active it
  returns a decision and does not throw.
\<close>

theorem inactive_throws:
  assumes "new_ObjectId userId = Inr q"
    and "findOne collection q = Some user"
  shows "(\<not> isActive (subscription user) \<longrightarrow>
            canGenerateVideos collection userId complexity
              = Inl (Error ''Your subscription is inactive!'')) \<and>
         (isActive (subscription user) \<longrightarrow>
            (\<exists>d. canGenerateVideos collection userId complexity = Inr d))"
  by (simp add: canGenerateVideos_found [OF assms] decide_def Let_def)

theorem inactive_throws_witness:
  "canGenerateVideos [sample_user False ADVANCED 0 100] sample_id ''basic''
     = Inl (Error ''Your subscription is inactive!'') \<and>
   (\<exists>d. canGenerateVideos [sample_user True ADVANCED 0 100] sample_id ''basic'' = Inr d)"
  using inactive_throws [OF sample_lookup, of False ADVANCED 0 100 "''basic''"]
        inactive_throws [OF sample_lookup, of True ADVANCED 0 100 "''basic''"]
  by (simp add: sample_user_def)

subsection \<open>The tier gate\<close>

text \<open>
  C9: the tiers are ordered basic < intermediate < advanced by their position in
  \<open>complexityOrder\<close>, and every plan's maximum is one of them. For an existing, active
  account that has not exceeded its monthly limit: a requested tier above the plan's
  maximum is denied, with a reason that names the requested tier and the plan; requesting
  \<open>basic\<close> is allowed; and an allowed decision carries
  \<open>videosLeft = maxVideosPerMonth - videosGenerated\<close>.
\<close>

theorem tier_gate:
  assumes "new_ObjectId userId = Inr q"
    and "findOne collection q = Some user"
    and "isActive (subscription user)"
    and "\<not> videosGenerated (subscription user) > maxVideosPerMonth (subscription user)"
  shows "indexOf complexityOrder ''basic'' < indexOf complexityOrder ''intermediate'' \<and>
         indexOf complexityOrder ''intermediate'' < indexOf complexityOrder ''advanced'' \<and>
         maxComplexity (PLAN_LIMITS (plan (subscription user))) \<in> set complexityOrder \<and>
         (indexOf complexityOrder complexity
            > indexOf complexityOrder (maxComplexity (PLAN_LIMITS (plan (subscription user))))
          \<longrightarrow> (\<exists>r. canGenerateVideos collection userId complexity
                       = Inr \<lparr>canGenerate = False, reason = Some r, videosLeft = None\<rparr> \<and>
                     r = ''Complexity '' @ complexity @ '' not allowed for ''
                           @ plan_value (plan (subscription user)) \<and>
                     sublist complexity r \<and>
                     sublist (plan_value (plan (subscription user))) r)) \<and>
         canGenerateVideos collection userId ''basic''
           = Inr \<lparr>canGenerate = True, reason = None,
                  videosLeft = Some (maxVideosPerMonth (subscription user)
                                     - videosGenerated (subscription user))\<rparr> \<and>
         (\<forall>d. canGenerateVideos collection userId complexity = Inr d \<and> canGenerate d
            \<longrightarrow> videosLeft d = Some (maxVideosPerMonth (subscription user)
                                       - videosGenerated (subscription user)))"
proof -
  let ?p = "plan (subscription user)"
  have order: "indexOf complexityOrder ''basic'' < indexOf complexityOrder ''intermediate''"
    "indexOf complexityOrder ''intermediate'' < indexOf complexityOrder ''advanced''"
    by (simp_all add: complexityOrder_def)
  have mem: "maxComplexity (PLAN_LIMITS ?p) \<in> set complexityOrder"
    by (cases ?p) (simp_all add: complexityOrder_def)
  have names: "sublist complexity (''Complexity '' @ complexity @ '' not allowed for '' @ plan_value ?p)"
    "sublist (plan_value ?p) (''Complexity '' @ complexity @ '' not allowed for '' @ plan_value ?p)"
  proof -
    show "sublist complexity (''Complexity '' @ complexity @ '' not allowed for '' @ plan_value ?p)"
      by (rule sublist_appendI)
    have "sublist (plan_value ?p) ((''Complexity '' @ complexity @ '' not allowed for '') @ plan_value ?p)"
      by (rule sublist_append_leftI)
    then show "sublist (plan_value ?p) (''Complexity '' @ complexity @ '' not allowed for '' @ plan_value ?p)"
      by simp
  qed
  have basic: "\<not> indexOf complexityOrder ''basic'' > indexOf complexityOrder (maxComplexity (PLAN_LIMITS ?p))"
    by (cases ?p) (simp_all add: complexityOrder_def)
  have res: "canGenerateVideos collection userId c = decide user c" for c
    by (rule canGenerateVideos_found [OF assms(1,2)])
  have denied: "indexOf complexityOrder complexity
            > indexOf complexityOrder (maxComplexity (PLAN_LIMITS ?p))
          \<longrightarrow> (\<exists>r. canGenerateVideos collection userId complexity
                       = Inr \<lparr>canGenerate = False, reason = Some r, videosLeft = None\<rparr> \<and>
                     r = ''Complexity '' @ complexity @ '' not allowed for '' @ plan_value ?p \<and>
                     sublist complexity r \<and> sublist (plan_value ?p) r)"
    using assms(3,4) names by (simp add: res decide_active)
  have allowed_basic: "canGenerateVideos collection userId ''basic''
           = Inr \<lparr>canGenerate = True, reason = None,
                  videosLeft = Some (maxVideosPerMonth (subscription user)
                                     - videosGenerated (subscription user))\<rparr>"
    using assms(3,4) basic by (simp add: res decide_active)
  have left: "\<forall>d. canGenerateVideos collection userId complexity = Inr d \<and> canGenerate d
            \<longrightarrow> videosLeft d = Some (maxVideosPerMonth (subscription user)
                                       - videosGenerated (subscription user))"
    using assms(3,4) by (auto simp: res decide_active split: if_splits)
  from order mem denied allowed_basic left show ?thesis by blast
qed

theorem tier_gate_witness:
  "canGenerateVideos [sample_user True BASIC 0 5] sample_id ''advanced''
     = Inr \<lparr>canGenerate = False, reason = Some ''Complexity advanced not allowed for basic'',
            videosLeft = None\<rparr> \<and>
   canGenerateVideos [sample_user True BASIC 0 5] sample_id ''basic''
     = Inr \<lparr>canGenerate = True, reason = None, videosLeft = Some 5\<rparr>"
  using tier_gate [OF sample_lookup, of True BASIC 0 5 "''advanced''"]
  by (simp add: sample_user_def complexityOrder_def)

subsection \<open>Unrecognised complexity values\<close>

text \<open>
  C10: for an existing, active account that has not exceeded its monthly limit, a
  complexity string that is none of "basic", "intermediate", "advanced" has index \<open>-1\<close> in
  the ordering and the call returns an allowed decision.
\<close>

theorem unknown_complexity_allowed:
  assumes "new_ObjectId userId = Inr q"
    and "findOne collection q = Some user"
    and "isActive (subscription user)"
    and "\<not> videosGenerated (subscription user) > maxVideosPerMonth (subscription user)"
    and "complexity \<notin> {''basic'', ''intermediate'', ''advanced''}"
  shows "indexOf complexityOrder complexity = - 1 \<and>
         canGenerateVideos collection userId complexity
           = Inr \<lparr>canGenerate = True, reason = None,
                  videosLeft = Some (maxVideosPerMonth (subscription user)
                                     - videosGenerated (subscription user))\<rparr>"
proof -
  have idx: "indexOf complexityOrder complexity = - 1"
    using assms(5) by (intro indexOf_unknown) (simp add: complexityOrder_def)
  have "0 \<le> indexOf complexityOrder (maxComplexity (PLAN_LIMITS (plan (subscription user))))"
    by (simp add: indexOf_plan_max split: SubscriptionPlan.split)
  with idx assms(3,4) show ?thesis
    by (simp add: canGenerateVideos_found [OF assms(1,2)] decide_active)
qed

theorem unknown_complexity_allowed_witness:
  "canGenerateVideos [sample_user True BASIC 2 5] sample_id ''expert''
     = Inr \<lparr>canGenerate = True, reason = None, videosLeft = Some 3\<rparr>"
  using unknown_complexity_allowed [OF sample_lookup, of True BASIC 2 5 "''expert''"]
  by (simp add: sample_user_def)

subsection \<open>The usage increment\<close>

text \<open>
  C7 at an existing account with \<open>videosGenerated = 0\<close>: the filter built with
  \<open>new Object(userId)\<close> matches no document, so the collection is unchanged and the
  stored counter is still 0 and \<open>updatedAt\<close> is untouched.
\<close>

theorem increaseVideoCount_no_effect:
  "findOne [sample_user True BASIC 0 5] (ObjectId sample_id) = Some (sample_user True BASIC 0 5) \<and>
   increaseVideoCount [sample_user True BASIC 0 5] sample_id 1700000000000
     = [sample_user True BASIC 0 5] \<and>
   videosGenerated (subscription (sample_user True BASIC 0 5)) = 0"
  by (simp add: sample_lookup increaseVideoCount_def updateOne_boxed_string sample_user_def)

section \<open>Properties of the render executor\<close>

lemma showNat_42: "showNat 42 = ''42''"
  by code_simp

lemma sample_pythonFilePath: "pythonFilePath_of (sample_env u evs) = ''/srv/tmp/animation_42.py''"
  by (simp add: pythonFilePath_of_def sample_env_def path_join_def showNat_42)

lemma sample_env_sel:
  "uuid (sample_env u evs) = ''job-1''"
  "outDir (sample_env u evs) = ''/srv/out''"
  "writeFile_error (sample_env u evs) = None"
  "unlink_error (sample_env u evs) = u"
  "events (sample_env u evs) = evs"
  "overlap (sample_env u evs) = (\<lambda>fs. fs)"
  by (simp_all add: sample_env_def)

lemma overlapped_pythonFilePath:
  "pythonFilePath_of (overlapped_env evs) = ''/srv/tmp/animation_42.py''"
  by (simp add: pythonFilePath_of_def overlapped_env_def path_join_def showNat_42)

lemma overlapped_env_sel:
  "uuid (overlapped_env evs) = ''job-1''"
  "outDir (overlapped_env evs) = ''/srv/out''"
  "writeFile_error (overlapped_env evs) = None"
  "unlink_error (overlapped_env evs) = None"
  "events (overlapped_env evs) = evs"
  "overlap (overlapped_env evs) = (\<lambda>fs. fs(''/srv/tmp/animation_42.py'' := None))"
  by (simp_all add: overlapped_env_def)

lemma runManim_first_event:
  "runManim (env\<lparr>events := e # es\<rparr>) p q v =
     on_event (path_join (outDir env) (v @ ''.mp4'')) Pending e"
proof -
  have settled: "s \<noteq> Pending \<Longrightarrow> foldl (on_event out) s es = s" for s out
  proof (induction es arbitrary: s)
    case Nil
    then show ?case by simp
  next
    case (Cons x xs)
    have "on_event out s x = s"
      using Cons.prems by (cases x; cases s) (simp_all add: settle_def)
    with Cons show ?case by simp
  qed
  have "on_event out Pending e \<noteq> Pending" for out
    by (cases e) (simp_all add: settle_def)
  then show ?thesis
    by (simp add: runManim_def Let_def settled)
qed

lemma generateVideo_cases:
  "generateVideo env w request =
     (case writeFile_error env of
        Some e \<Rightarrow> (failed_response (uuid env) e, w)
      | None \<Rightarrow>
          (case unlink_outcome env
                  (overlap env ((files w)(pythonFilePath_of env \<mapsto> request_code request)))
                  (pythonFilePath_of env) of
             Some e \<Rightarrow>
               (failed_response (uuid env) e,
                w\<lparr>files := overlap env ((files w)(pythonFilePath_of env \<mapsto> request_code request)),
                  floating := floating w @ [runManim env (pythonFilePath_of env)
                     (getQualityFlag (case quality request of None \<Rightarrow> ''medium''
                        | Some q \<Rightarrow> if q = [] then ''medium'' else q)) (uuid env)],
                  unlinks := unlinks w @ [pythonFilePath_of env]\<rparr>)
           | None \<Rightarrow>
               (\<lparr>videoId = uuid env, status = completed,
                 videoUrl = Some (''/api/videos/'' @ uuid env @ ''.mp4''), error = None\<rparr>,
                w\<lparr>files := (overlap env ((files w)(pythonFilePath_of env \<mapsto> request_code request)))
                            (pythonFilePath_of env := None),
                  floating := floating w @ [runManim env (pythonFilePath_of env)
                     (getQualityFlag (case quality request of None \<Rightarrow> ''medium''
                        | Some q \<Rightarrow> if q = [] then ''medium'' else q)) (uuid env)],
                  unlinks := unlinks w @ [pythonFilePath_of env]\<rparr>)))"
  by (simp add: generateVideo_def fs_writeFile_def fs_unlink_def pythonFilePath_of_def Let_def
           split: option.splits)

lemmas sample_run = generateVideo_cases sample_pythonFilePath sample_env_sel empty_world_def
  runManim_def settle_def failed_response_def sample_request_def path_join_def
  unlink_outcome_def

text \<open>
  C1 at three runs in which writing and deleting the temporary file succeed: the renderer
  exits with code 1, the renderer cannot be spawned, and the timer expires before the
  process closes. The promise of \<open>runManim\<close> is rejected with the matching message each
  time, and \<open>generateVideo\<close>, which never awaits it, answers \<open>completed\<close> with a video
  URL.
\<close>

theorem generateVideo_ignores_renderer:
  "floating (snd (generateVideo (sample_env None [Close (Some 1), TimerFired]) empty_world sample_request))
     = [Rejected (Error ''Manim process failed with code'')] \<and>
   fst (generateVideo (sample_env None [Close (Some 1), TimerFired]) empty_world sample_request)
     = \<lparr>videoId = ''job-1'', status = completed,
        videoUrl = Some ''/api/videos/job-1.mp4'', error = None\<rparr> \<and>
   floating (snd (generateVideo (sample_env None [SpawnError, Close (Some (- 2)), TimerFired]) empty_world sample_request))
     = [Rejected (Error ''Failed to start manim process'')] \<and>
   status (fst (generateVideo (sample_env None [SpawnError, Close (Some (- 2)), TimerFired]) empty_world sample_request))
     = completed \<and>
   floating (snd (generateVideo (sample_env None [TimerFired, Close None]) empty_world sample_request))
     = [Rejected (Error ''Video generation timeout'')] \<and>
   status (fst (generateVideo (sample_env None [TimerFired, Close None]) empty_world sample_request))
     = completed"
  by (simp add: sample_run)


text \<open>
  A second way for the deletion to fail: a call that overlaps this one in the same
  millisecond uses the same path and has deleted the file already. The answer is \<open>failed\<close>
  with \<open>ENOENT\<close>, although the renderer has exited with code 0, and the file is gone.
\<close>

lemma overlapping_calls_enoent:
  "fst (generateVideo (overlapped_env [Close (Some 0), TimerFired]) empty_world sample_request)
     = \<lparr>videoId = ''job-1'', status = failed, videoUrl = None,
        error = Some (''ENOENT: no such file or directory, unlink ''
                      @ [CHR 0x27] @ ''/srv/tmp/animation_42.py'' @ [CHR 0x27])\<rparr> \<and>
   files (snd (generateVideo (overlapped_env [Close (Some 0), TimerFired]) empty_world sample_request))
     ''/srv/tmp/animation_42.py'' = None \<and>
   floating (snd (generateVideo (overlapped_env [Close (Some 0), TimerFired]) empty_world sample_request))
     = [Fulfilled ''/srv/out/job-1.mp4'']"
  by (simp add: sample_run overlapped_env_sel overlapped_pythonFilePath)



section \<open>Properties of the artifact store\<close>

text \<open>
  C8 at a client whose \<open>presignedGetObject\<close> returns a promise that is rejected: the
  promise of \<open>getVideoUrl\<close> is rejected with the same error, it is not fulfilled with
  the empty string. Only an error thrown while \<open>presignedGetObject\<close> is being called
  reaches the \<open>catch\<close> block.
\<close>

theorem getVideoUrl_rejects:
  "getVideoUrl failing_client ''manim'' ''job-1'' ''user-1'' None
     = Rejected (Error ''connect ECONNREFUSED 127.0.0.1:9000'') \<and>
   getVideoUrl throwing_client ''manim'' ''job-1'' ''user-1'' None = Fulfilled ''''"
  by (simp add: getVideoUrl_def failing_client_def throwing_client_def)

section \<open>Properties of the source normalizer\<close>


















text \<open>
  C5 at a response that is one fenced block holding a five-line script: no entry of
  \<open>codeMatches\<close> matches (each is six backquotes in a row), so the extracted code is the
  join of the lines that carry a structural signal. It has the fences stripped and the
  line \<open>c = Circle()\<close> dropped, and is not the block's content. The same path applied to
  the fallback script, which is normalised already, keeps 6 of its 14 lines.
\<close>

theorem fenced_block_not_extracted:
  "first_code codeMatches fenced_response = [] \<and>
   extractCode fenced_response
     = ''from manim import *\<newline>class Demo(Scene):\<newline>    def construct(self):\<newline>        self.play(Create(c))'' \<and>
   extractCode fenced_response
     \<noteq> ''from manim import *\<newline>class Demo(Scene):\<newline>    def construct(self):\<newline>        c = Circle()\<newline>        self.play(Create(c))'' \<and>
   extractCode generateFallbackCode
     = ''from manim import *\<newline>class GeneratedAnimation(Scene):\<newline>    def construct(self):\<newline>        self.play(Write(text))\<newline>        self.play(Create(circle))\<newline>        self.play(FadeOut(text), FadeOut(circle))''"
  by code_simp

end
